theory Spec2Isabelle
  imports Main
begin

section \<open>Data model (types.ts)\<close>

text \<open>
  The five node categories of the union type \<open>NodeType\<close>. \<open>type_name\<close> is the string
  literal each one is in the source; it is what a template string prints.
\<close>

datatype NodeType = Sales | Order | Upsell | Downsell | Thankyou

fun type_name :: "NodeType \<Rightarrow> string" where
  "type_name Sales = ''sales''"
| "type_name Order = ''order''"
| "type_name Upsell = ''upsell''"
| "type_name Downsell = ''downsell''"
| "type_name Thankyou = ''thankyou''"

text \<open>
  \<open>NODE_CONFIGS\<close>: the entries of the registry that are plain ASCII text. The \<open>icon\<close>
  entry is a pictograph used by the palette only and is not read by the store.
\<close>

record NodeConfig =
  cfg_label :: string
  cfg_buttonLabel :: string
  cfg_color :: string
  cfg_description :: string

fun NODE_CONFIGS :: "NodeType \<Rightarrow> NodeConfig" where
  "NODE_CONFIGS Sales = \<lparr>cfg_label = ''Sales Page'', cfg_buttonLabel = ''Buy Now'',
     cfg_color = ''#3b82f6'', cfg_description = ''Landing page to capture interest''\<rparr>"
| "NODE_CONFIGS Order = \<lparr>cfg_label = ''Order Page'', cfg_buttonLabel = ''Complete Order'',
     cfg_color = ''#8b5cf6'', cfg_description = ''Checkout and payment page''\<rparr>"
| "NODE_CONFIGS Upsell = \<lparr>cfg_label = ''Upsell'', cfg_buttonLabel = ''Yes, Add This!'',
     cfg_color = ''#10b981'', cfg_description = ''Offer additional products''\<rparr>"
| "NODE_CONFIGS Downsell = \<lparr>cfg_label = ''Downsell'', cfg_buttonLabel = ''Get This Instead'',
     cfg_color = ''#f59e0b'', cfg_description = ''Alternative offer if upsell declined''\<rparr>"
| "NODE_CONFIGS Thankyou = \<lparr>cfg_label = ''Thank You'', cfg_buttonLabel = ''Continue'',
     cfg_color = ''#ec4899'', cfg_description = ''Order confirmation page''\<rparr>"

text \<open>
  A JavaScript number as the store carries it around: a whole number, or one of the three
  values that are not finite. The two zeros, which \<open>===\<close> does not tell apart, are one
  value. The canvas is set up with \<open>snapToGrid\<close> and a grid of 20 by 20 (App.tsx), the
  stroke width is 2 and the counters count; numbers with a fraction are left out of this
  theory.
\<close>

datatype number = Whole int | NaN | PosInfinity | NegInfinity

text \<open>
  A node is reactflow's \<open>Node<FunnelNodeData>\<close>: the fields the store writes. A value of
  type \<open>string | null\<close> is a \<open>string option\<close>, \<open>None\<close> being \<open>null\<close>; an optional field is an
  option as well.
\<close>

record XYPosition =
  pos_x :: number
  pos_y :: number

record FunnelNodeData =
  data_type :: NodeType
  label :: string
  buttonLabel :: string
  hasWarning :: "bool option"
  warningMessage :: "string option"

record FunnelNode =
  node_id :: string
  node_type :: "string option"
  position :: XYPosition
  data :: FunnelNodeData

record EdgeMarker =
  marker_type :: string
  marker_color :: string

record EdgeStyle =
  stroke :: string
  strokeWidth :: nat

text \<open>
  An edge is reactflow's \<open>Edge\<close>. \<open>onConnect\<close> copies \<open>connection.source\<close> and
  \<open>connection.target\<close> into it under a non-null assertion, which checks nothing at run
  time, so both fields can hold \<open>null\<close> in the edge that is handed to \<open>addEdge\<close>.
\<close>

record FunnelEdge =
  edge_id :: string
  source :: "string option"
  target :: "string option"
  sourceHandle :: "string option"
  targetHandle :: "string option"
  edge_type :: "string option"
  animated :: "bool option"
  markerEnd :: "EdgeMarker option"
  style :: "EdgeStyle option"

record Connection =
  conn_source :: "string option"
  conn_target :: "string option"
  conn_sourceHandle :: "string option"
  conn_targetHandle :: "string option"

datatype IssueType = Error | Warning

record ValidationIssue =
  issue_type :: IssueType
  message :: string
  nodeId :: "string option"

text \<open>
  The data part of the store: the snapshot (nodes, edges, counters). The counters are
  JavaScript numbers that only ever grow by one from zero; they are modelled as naturals.
\<close>

record FunnelStore =
  nodes :: "FunnelNode list"
  edges :: "FunnelEdge list"
  nodeCounters :: "NodeType \<Rightarrow> nat"

section \<open>Printing values in template strings\<close>

text \<open>The decimal digits of a natural number, as a template string prints a count.\<close>

function decimal :: "nat \<Rightarrow> string" where
  "decimal n = (if n < 10 then [char_of (48 + n)]
                else decimal (n div 10) @ [char_of (48 + n mod 10)])"
  by pat_completeness auto
termination
  by (relation "measure (\<lambda>n. n)") auto

declare decimal.simps [simp del]

text \<open>A \<open>string | null\<close> inside a template string: \<open>null\<close> prints as the word.\<close>

fun str :: "string option \<Rightarrow> string" where
  "str None = ''null''"
| "str (Some s) = s"

text \<open>JavaScript truthiness of a \<open>string | null\<close>: \<open>null\<close> and the empty string are falsy.\<close>

fun falsy :: "string option \<Rightarrow> bool" where
  "falsy None = True"
| "falsy (Some s) = (s = [])"

section \<open>The store (store/funnelStore.ts)\<close>

definition getInitialCounters :: "NodeType \<Rightarrow> nat" where
  "getInitialCounters = (\<lambda>t. 0)"

definition initialStore :: FunnelStore where
  "initialStore = \<lparr>nodes = [], edges = [], nodeCounters = getInitialCounters\<rparr>"

subsection \<open>addEdge of the reactflow library\<close>

text \<open>
  \<open>onConnect\<close> appends through \<open>addEdge\<close>, which the store imports from the reactflow
  package (version 11: \<open>App.tsx\<close> uses its \<open>screenToFlowPosition\<close>). The package is a
  dependency, not a source file of the repository, so \<open>onConnect\<close> below takes the
  function as its first argument. \<open>addEdge\<close> is the function the package publishes: it
  returns the list as it is when the source or the target of the new edge is falsy, and
  when \<open>connectionExists\<close> finds an edge with the same source and target whose handles are
  equal or both falsy; otherwise it returns the list with the edge at the end. An edge
  that already carries an \<open>id\<close>, as the one \<open>onConnect\<close> builds, keeps it.
\<close>

definition connectionExists :: "FunnelEdge \<Rightarrow> FunnelEdge list \<Rightarrow> bool" where
  "connectionExists edge es =
     list_ex (\<lambda>el. source el = source edge \<and> target el = target edge
        \<and> (sourceHandle el = sourceHandle edge
             \<or> (falsy (sourceHandle el) \<and> falsy (sourceHandle edge)))
        \<and> (targetHandle el = targetHandle edge
             \<or> (falsy (targetHandle el) \<and> falsy (targetHandle edge)))) es"

definition addEdge :: "FunnelEdge \<Rightarrow> FunnelEdge list \<Rightarrow> FunnelEdge list" where
  "addEdge edgeParams es =
     (if falsy (source edgeParams) \<or> falsy (target edgeParams) then es
      else if connectionExists edgeParams es then es
      else es @ [edgeParams])"

subsection \<open>Editing actions\<close>

text \<open>\<open>nodes.find((n) => n.id === connection.source)\<close>: the first node with that id.\<close>

definition findSourceNode :: "FunnelStore \<Rightarrow> Connection \<Rightarrow> FunnelNode option" where
  "findSourceNode st connection =
     find (\<lambda>n. Some (node_id n) = conn_source connection) (nodes st)"

definition newEdge :: "Connection \<Rightarrow> FunnelEdge" where
  "newEdge connection =
     \<lparr>edge_id = ''e'' @ str (conn_source connection) @ ''-'' @ str (conn_target connection),
      source = conn_source connection,
      target = conn_target connection,
      sourceHandle = conn_sourceHandle connection,
      targetHandle = conn_targetHandle connection,
      edge_type = Some ''smoothstep'',
      animated = Some True,
      markerEnd = Some \<lparr>marker_type = ''arrowclosed'', marker_color = ''#6366f1''\<rparr>,
      style = Some \<lparr>stroke = ''#6366f1'', strokeWidth = 2\<rparr>\<rparr>"

text \<open>
  \<open>onConnect\<close>: the new store. The early \<open>return\<close> for a Thank You source leaves the
  store as it is; the Sales Page branch only writes to the console (\<open>onConnect_console\<close>)
  and falls through to the append.
\<close>

definition onConnect ::
  "(FunnelEdge \<Rightarrow> FunnelEdge list \<Rightarrow> FunnelEdge list) \<Rightarrow> FunnelStore \<Rightarrow> Connection \<Rightarrow> FunnelStore" where
  "onConnect add_edge st connection =
     (let sourceNode = findSourceNode st connection in
      if map_option (\<lambda>n. data_type (data n)) sourceNode = Some Thankyou then st
      else st\<lparr>edges := add_edge (newEdge connection) (edges st)\<rparr>)"

text \<open>The lines \<open>onConnect\<close> writes with \<open>console.warn\<close>.\<close>

definition onConnect_console :: "FunnelStore \<Rightarrow> Connection \<Rightarrow> string list" where
  "onConnect_console st connection =
     (let sourceNode = findSourceNode st connection in
      if map_option (\<lambda>n. data_type (data n)) sourceNode = Some Thankyou
      then [''Thank You page cannot have outgoing connections'']
      else if map_option (\<lambda>n. data_type (data n)) sourceNode = Some Sales
              \<and> length (filter (\<lambda>e. source e = conn_source connection) (edges st)) \<ge> 1
      then [''Sales Page should have only one outgoing edge'']
      else [])"

text \<open>
  \<open>addNode\<close>: \<open>now\<close> is the value \<open>Date.now()\<close> returns during the call (milliseconds
  since the epoch), the only input of the call that is not an argument.
\<close>

definition newLabel :: "NodeType \<Rightarrow> nat \<Rightarrow> string" where
  "newLabel ty newCount =
     (if ty = Sales \<or> ty = Order \<or> ty = Thankyou then cfg_label (NODE_CONFIGS ty)
      else cfg_label (NODE_CONFIGS ty) @ '' '' @ decimal newCount)"

definition newNodeId :: "NodeType \<Rightarrow> nat \<Rightarrow> string" where
  "newNodeId ty now = type_name ty @ ''-'' @ decimal now"

definition newNode :: "FunnelStore \<Rightarrow> nat \<Rightarrow> NodeType \<Rightarrow> XYPosition \<Rightarrow> FunnelNode" where
  "newNode st now ty pos =
     \<lparr>node_id = newNodeId ty now,
      node_type = Some ''funnelNode'',
      position = pos,
      data = \<lparr>data_type = ty, label = newLabel ty (nodeCounters st ty + 1),
              buttonLabel = cfg_buttonLabel (NODE_CONFIGS ty),
              hasWarning = None, warningMessage = None\<rparr>\<rparr>"

definition addNode :: "FunnelStore \<Rightarrow> nat \<Rightarrow> NodeType \<Rightarrow> XYPosition \<Rightarrow> FunnelStore" where
  "addNode st now ty pos =
     st\<lparr>nodes := nodes st @ [newNode st now ty pos],
        nodeCounters := (nodeCounters st)(ty := nodeCounters st ty + 1)\<rparr>"

definition deleteNode :: "FunnelStore \<Rightarrow> string \<Rightarrow> FunnelStore" where
  "deleteNode st nid =
     st\<lparr>nodes := filter (\<lambda>n. node_id n \<noteq> nid) (nodes st),
        edges := filter (\<lambda>e. source e \<noteq> Some nid \<and> target e \<noteq> Some nid) (edges st)\<rparr>"

definition deleteEdge :: "FunnelStore \<Rightarrow> string \<Rightarrow> FunnelStore" where
  "deleteEdge st eid = st\<lparr>edges := filter (\<lambda>e. edge_id e \<noteq> eid) (edges st)\<rparr>"

definition updateNodeLabel :: "FunnelStore \<Rightarrow> string \<Rightarrow> string \<Rightarrow> FunnelStore" where
  "updateNodeLabel st nid lbl =
     st\<lparr>nodes := map (\<lambda>node. if node_id node = nid
                               then node\<lparr>data := (data node)\<lparr>label := lbl\<rparr>\<rparr>
                               else node) (nodes st)\<rparr>"

subsection \<open>Validation\<close>

text \<open>
  \<open>getValidationIssues\<close>: each \<open>forEach\<close> that pushes onto \<open>issues\<close> is the concatenation
  of what its body pushes for each node, in the order of the source.
\<close>

definition outgoing :: "FunnelStore \<Rightarrow> FunnelNode \<Rightarrow> FunnelEdge list" where
  "outgoing st node = filter (\<lambda>e. source e = Some (node_id node)) (edges st)"

definition hasIncoming :: "FunnelStore \<Rightarrow> FunnelNode \<Rightarrow> bool" where
  "hasIncoming st node = list_ex (\<lambda>e. target e = Some (node_id node)) (edges st)"

definition hasOutgoing :: "FunnelStore \<Rightarrow> FunnelNode \<Rightarrow> bool" where
  "hasOutgoing st node = list_ex (\<lambda>e. source e = Some (node_id node)) (edges st)"

definition quoted :: "string \<Rightarrow> string" where
  \<open>quoted s = ''"'' @ s @ ''"''\<close>

definition orphanIssues :: "FunnelStore \<Rightarrow> ValidationIssue list" where
  "orphanIssues st =
     concat (map (\<lambda>node.
       if \<not> hasIncoming st node \<and> \<not> hasOutgoing st node \<and> length (nodes st) > 1
       then [\<lparr>issue_type = Warning,
              message = quoted (label (data node)) @ '' is disconnected'',
              nodeId = Some (node_id node)\<rparr>]
       else []) (nodes st))"

definition salesIssues :: "FunnelStore \<Rightarrow> ValidationIssue list" where
  "salesIssues st =
     concat (map (\<lambda>node.
       (if length (outgoing st node) > 1
        then [\<lparr>issue_type = Warning,
               message = quoted (label (data node))
                         @ '' has multiple outgoing connections (should have 1)'',
               nodeId = Some (node_id node)\<rparr>]
        else [])
       @ (if length (outgoing st node) = 0 \<and> length (nodes st) > 1
          then [\<lparr>issue_type = Warning,
                 message = quoted (label (data node)) @ '' has no outgoing connection'',
                 nodeId = Some (node_id node)\<rparr>]
          else []))
       (filter (\<lambda>n. data_type (data n) = Sales) (nodes st)))"

definition thankYouIssues :: "FunnelStore \<Rightarrow> ValidationIssue list" where
  "thankYouIssues st =
     concat (map (\<lambda>node.
       if length (outgoing st node) > 0
       then [\<lparr>issue_type = Error,
              message = quoted (label (data node))
                        @ '' should not have outgoing connections'',
              nodeId = Some (node_id node)\<rparr>]
       else [])
       (filter (\<lambda>n. data_type (data n) = Thankyou) (nodes st)))"

definition entryPoints :: "FunnelStore \<Rightarrow> FunnelNode list" where
  "entryPoints st =
     filter (\<lambda>node. \<not> hasIncoming st node \<and> data_type (data node) \<noteq> Thankyou) (nodes st)"

definition entryPointIssues :: "FunnelStore \<Rightarrow> ValidationIssue list" where
  "entryPointIssues st =
     (if length (entryPoints st) > 1 \<and> length (nodes st) > 1
      then [\<lparr>issue_type = Warning,
             message = ''Funnel has '' @ decimal (length (entryPoints st))
                       @ '' entry points (usually should be 1)'',
             nodeId = None\<rparr>]
      else [])"

definition getValidationIssues :: "FunnelStore \<Rightarrow> ValidationIssue list" where
  "getValidationIssues st =
     orphanIssues st @ salesIssues st @ thankYouIssues st @ entryPointIssues st"

section \<open>The label editor of a node (components/nodes)\<close>

text \<open>
  \<open>handleBlur\<close> of the node component is the only caller of \<open>updateNodeLabel\<close>.
  \<open>currentLabel\<close> is \<open>data.label\<close>, the label the node shows, and \<open>editLabel\<close> the text
  in the input field. \<open>trim\<close> is \<open>String.prototype.trim\<close>, taken as an argument.
\<close>

definition handleBlur ::
  "(string \<Rightarrow> string) \<Rightarrow> FunnelStore \<Rightarrow> string \<Rightarrow> string \<Rightarrow> string \<Rightarrow> FunnelStore" where
  "handleBlur trim st nid currentLabel editLabel =
     (if trim editLabel \<noteq> [] \<and> editLabel \<noteq> currentLabel
      then updateNodeLabel st nid (trim editLabel) else st)"

text \<open>
  \<open>String.prototype.trim\<close> on a string of characters below 256, as the strings of this
  theory are: the white space and line terminator characters in that range.
\<close>

definition isSpace :: "char \<Rightarrow> bool" where
  "isSpace c =
     (c \<in> set [CHR '' '', CHR 0x09, CHR 0x0A, CHR 0x0B, CHR 0x0C, CHR 0x0D, CHR 0xA0])"

definition trimSpaces :: "string \<Rightarrow> string" where
  "trimSpaces s = rev (dropWhile isSpace (rev (dropWhile isSpace s)))"

section \<open>Persistence (store/funnelStore.ts)\<close>

text \<open>
  The persistence actions do not look inside the nodes and the edges: they move whatever
  JavaScript value the store holds through \<open>JSON.stringify\<close> and take whatever
  \<open>JSON.parse\<close> returns. They are modelled on the value of each field of the store, a
  value of the kinds JSON has, whose numbers may also be \<open>NaN\<close> or infinite; \<open>toJs\<close> gives
  that value for a store built by the editing actions (properties in the order in which
  the object literals of the source list them, an absent optional property left out).
\<close>

datatype json =
    JNull
  | JBool bool
  | JNumber number
  | JString string
  | JArray "json list"
  | JObject "(string \<times> json) list"

record JsStore =
  js_nodes :: json
  js_edges :: json
  js_nodeCounters :: json

text \<open>
  \<open>localStorage\<close>: the stored keys with their texts, and the quota of the browser, counted
  in characters of keys and texts. \<open>setItem\<close> replaces the text of the key; it is \<open>None\<close>
  when the browser throws \<open>QuotaExceededError\<close> because the new content would not fit (a
  disabled storage has quota 0).
\<close>

record LocalStorage =
  items :: "(string \<times> string) list"
  quota :: nat

definition used :: "(string \<times> string) list \<Rightarrow> nat" where
  "used kvs = sum_list (map (\<lambda>kv. length (fst kv) + length (snd kv)) kvs)"

definition setItem :: "LocalStorage \<Rightarrow> string \<Rightarrow> string \<Rightarrow> LocalStorage option" where
  "setItem localStorage k v =
     (let items' = (k, v) # filter (\<lambda>kv. fst kv \<noteq> k) (items localStorage)
      in if used items' \<le> quota localStorage then Some (localStorage\<lparr>items := items'\<rparr>)
         else None)"

definition STORAGE_KEY :: string where
  "STORAGE_KEY = ''funnel-builder-state''"

fun nullable :: "string option \<Rightarrow> json" where
  "nullable None = JNull"
| "nullable (Some s) = JString s"

fun optional :: "string \<Rightarrow> ('a \<Rightarrow> json) \<Rightarrow> 'a option \<Rightarrow> (string \<times> json) list" where
  "optional k f None = []"
| "optional k f (Some v) = [(k, f v)]"

definition position_json :: "XYPosition \<Rightarrow> json" where
  "position_json p = JObject [(''x'', JNumber (pos_x p)), (''y'', JNumber (pos_y p))]"

definition data_json :: "FunnelNodeData \<Rightarrow> json" where
  "data_json d = JObject ([(''type'', JString (type_name (data_type d))),
       (''label'', JString (label d)),
       (''buttonLabel'', JString (buttonLabel d))]
     @ optional ''hasWarning'' JBool (hasWarning d)
     @ optional ''warningMessage'' JString (warningMessage d))"

definition node_json :: "FunnelNode \<Rightarrow> json" where
  "node_json n = JObject ([(''id'', JString (node_id n))]
     @ optional ''type'' JString (node_type n)
     @ [(''position'', position_json (position n)), (''data'', data_json (data n))])"

definition marker_json :: "EdgeMarker \<Rightarrow> json" where
  "marker_json m = JObject [(''type'', JString (marker_type m)), (''color'', JString (marker_color m))]"

definition style_json :: "EdgeStyle \<Rightarrow> json" where
  "style_json s = JObject [(''stroke'', JString (stroke s)),
     (''strokeWidth'', JNumber (Whole (int (strokeWidth s))))]"

definition edge_json :: "FunnelEdge \<Rightarrow> json" where
  "edge_json e = JObject ([(''id'', JString (edge_id e)),
       (''source'', nullable (source e)),
       (''target'', nullable (target e)),
       (''sourceHandle'', nullable (sourceHandle e)),
       (''targetHandle'', nullable (targetHandle e))]
     @ optional ''type'' JString (edge_type e)
     @ optional ''animated'' JBool (animated e)
     @ optional ''markerEnd'' marker_json (markerEnd e)
     @ optional ''style'' style_json (style e))"

definition counters_json :: "(NodeType \<Rightarrow> nat) \<Rightarrow> json" where
  "counters_json c = JObject [(''sales'', JNumber (Whole (int (c Sales)))),
     (''order'', JNumber (Whole (int (c Order)))),
     (''upsell'', JNumber (Whole (int (c Upsell)))),
     (''downsell'', JNumber (Whole (int (c Downsell)))),
     (''thankyou'', JNumber (Whole (int (c Thankyou))))]"

definition toJs :: "FunnelStore \<Rightarrow> JsStore" where
  "toJs st = \<lparr>js_nodes = JArray (map node_json (nodes st)),
              js_edges = JArray (map edge_json (edges st)),
              js_nodeCounters = counters_json (nodeCounters st)\<rparr>"

text \<open>
  The object literal \<open>{ nodes, edges, nodeCounters }\<close> that \<open>saveToStorage\<close> and
  \<open>exportJSON\<close> serialise. \<open>JSON.stringify\<close> and \<open>JSON.parse\<close> belong to the platform and
  are arguments: \<open>JSON_stringify indent v\<close> is \<open>JSON.stringify(v, null, indent)\<close>, which
  for \<open>indent = 0\<close> is \<open>JSON.stringify(v)\<close>; \<open>JSON_parse input\<close> is \<open>None\<close> when
  \<open>JSON.parse\<close> throws.
\<close>

definition snapshot_json :: "JsStore \<Rightarrow> json" where
  "snapshot_json st = JObject [(''nodes'', js_nodes st), (''edges'', js_edges st),
     (''nodeCounters'', js_nodeCounters st)]"

definition saveToStorage ::
  "(nat \<Rightarrow> json \<Rightarrow> string) \<Rightarrow> JsStore \<Rightarrow> LocalStorage \<Rightarrow> LocalStorage option" where
  "saveToStorage JSON_stringify st localStorage =
     setItem localStorage STORAGE_KEY (JSON_stringify 0 (snapshot_json st))"

definition exportJSON :: "(nat \<Rightarrow> json \<Rightarrow> string) \<Rightarrow> JsStore \<Rightarrow> string" where
  "exportJSON JSON_stringify st = JSON_stringify 2 (snapshot_json st)"

text \<open>
  Reading the properties \<open>nodes\<close>, \<open>edges\<close> and \<open>nodeCounters\<close> of a parsed value: \<open>None\<close>
  is \<open>undefined\<close>. Only an object can have them; destructuring \<open>null\<close> throws a
  \<open>TypeError\<close>, which the \<open>catch\<close> of \<open>importJSON\<close> turns into \<open>false\<close> like every other
  exception. \<open>truthy\<close> is the test that \<open>||\<close> makes.

  \<open>importJSON\<close> calls \<open>set\<close> and then \<open>saveToStorage\<close>, both inside its \<open>try\<close>: when
  \<open>setItem\<close> throws, the \<open>catch\<close> returns \<open>false\<close> with the store already replaced and
  \<open>localStorage\<close> as it was.
\<close>

fun field :: "json \<Rightarrow> string \<Rightarrow> json option" where
  "field (JObject kvs) k = map_of kvs k"
| "field v k = None"

fun destructure :: "json \<Rightarrow> (json option \<times> json option \<times> json option) option" where
  "destructure JNull = None"
| "destructure v = Some (field v ''nodes'', field v ''edges'', field v ''nodeCounters'')"

fun isArray :: "json option \<Rightarrow> bool" where
  "isArray (Some (JArray xs)) = True"
| "isArray v = False"

fun truthy :: "json option \<Rightarrow> bool" where
  "truthy None = False"
| "truthy (Some JNull) = False"
| "truthy (Some (JBool b)) = b"
| "truthy (Some (JNumber r)) = (r \<noteq> Whole 0 \<and> r \<noteq> NaN)"
| "truthy (Some (JString s)) = (s \<noteq> [])"
| "truthy (Some (JArray xs)) = True"
| "truthy (Some (JObject kvs)) = True"

definition importJSON ::
  "(string \<Rightarrow> json option) \<Rightarrow> (nat \<Rightarrow> json \<Rightarrow> string) \<Rightarrow> JsStore \<Rightarrow> LocalStorage \<Rightarrow> string
     \<Rightarrow> bool \<times> JsStore \<times> LocalStorage" where
  "importJSON JSON_parse JSON_stringify st localStorage input =
     (case JSON_parse input of
        None \<Rightarrow> (False, st, localStorage)
      | Some parsed \<Rightarrow>
          (case destructure parsed of
             None \<Rightarrow> (False, st, localStorage)
           | Some (nodes', edges', nodeCounters') \<Rightarrow>
               if \<not> isArray nodes' \<or> \<not> isArray edges' then (False, st, localStorage)
               else
                 let st' = \<lparr>js_nodes = the nodes', js_edges = the edges',
                            js_nodeCounters = (if truthy nodeCounters' then the nodeCounters'
                                               else counters_json getInitialCounters)\<rparr>
                 in (case saveToStorage JSON_stringify st' localStorage of
                       Some localStorage' \<Rightarrow> (True, st', localStorage')
                     | None \<Rightarrow> (False, st', localStorage))))"

section \<open>JSON.stringify and JSON.parse\<close>

text \<open>
  The two functions of the platform, written out so that a text can be printed and read
  back. A string is a list of characters below 256.

  \<open>stringifyJSON space v\<close> is \<open>JSON.stringify(v, null, space)\<close> as ECMAScript defines it:
  \<open>QuoteJSONString\<close> escapes the quote, the backslash and the control characters;
  a number that is not finite is printed as \<open>null\<close>, a whole number with all its digits
  (as \<open>Number::toString\<close> does below \<open>10\<^sup>2\<^sup>1\<close>); an empty array or object is printed
  without a line break; with a gap, every element starts on a line of its own, indented
  by one gap more than its parent, and a blank follows the colon of a member.
\<close>

definition dquote :: char where
  "dquote = CHR 0x22"

definition backslash :: char where
  "backslash = CHR 0x5C"

definition hexDigit :: "nat \<Rightarrow> char" where
  "hexDigit d = ''0123456789abcdef'' ! d"

definition quoteChar :: "char \<Rightarrow> string" where
  "quoteChar c =
     (if c = dquote then [backslash, dquote]
      else if c = backslash then [backslash, backslash]
      else if c = CHR 0x08 then [backslash, CHR ''b'']
      else if c = CHR 0x0C then [backslash, CHR ''f'']
      else if c = CHR 0x0A then [backslash, CHR ''n'']
      else if c = CHR 0x0D then [backslash, CHR ''r'']
      else if c = CHR 0x09 then [backslash, CHR ''t'']
      else if (of_char c :: nat) < 32
      then [backslash, CHR ''u'', CHR ''0'', CHR ''0'',
            hexDigit (of_char c div 16), hexDigit (of_char c mod 16)]
      else [c])"

definition QuoteJSONString :: "string \<Rightarrow> string" where
  "QuoteJSONString s = dquote # concat (map quoteChar s) @ [dquote]"

definition numberToString :: "number \<Rightarrow> string" where
  "numberToString x =
     (case x of
        Whole n \<Rightarrow> (if n < 0 then ''-'' @ decimal (nat (- n)) else decimal (nat n))
      | NaN \<Rightarrow> ''NaN''
      | PosInfinity \<Rightarrow> ''Infinity''
      | NegInfinity \<Rightarrow> ''-Infinity'')"

fun isFinite :: "number \<Rightarrow> bool" where
  "isFinite (Whole n) = True"
| "isFinite x = False"

definition joinWith :: "string \<Rightarrow> string list \<Rightarrow> string" where
  "joinWith sep xs = (case xs of [] \<Rightarrow> [] | x # ys \<Rightarrow> x @ concat (map (\<lambda>y. sep @ y) ys))"

fun SerializeJSONProperty :: "string \<Rightarrow> string \<Rightarrow> json \<Rightarrow> string" where
  "SerializeJSONProperty gap indent JNull = ''null''"
| "SerializeJSONProperty gap indent (JBool b) = (if b then ''true'' else ''false'')"
| "SerializeJSONProperty gap indent (JNumber x) =
     (if isFinite x then numberToString x else ''null'')"
| "SerializeJSONProperty gap indent (JString s) = QuoteJSONString s"
| "SerializeJSONProperty gap indent (JArray vs) =
     (let stepback = indent; indent' = indent @ gap;
          partial = map (SerializeJSONProperty gap indent') vs
      in if partial = [] then ''[]''
         else if gap = [] then ''['' @ joinWith '','' partial @ '']''
         else ''['' @ [CHR 0x0A] @ indent' @ joinWith ('','' @ [CHR 0x0A] @ indent') partial
              @ [CHR 0x0A] @ stepback @ '']'')"
| "SerializeJSONProperty gap indent (JObject kvs) =
     (let stepback = indent; indent' = indent @ gap;
          partial = map (\<lambda>kv. QuoteJSONString (fst kv) @ '':'' @ (if gap = [] then [] else '' '')
                            @ SerializeJSONProperty gap indent' (snd kv)) kvs
      in if partial = [] then ''{}''
         else if gap = [] then ''{'' @ joinWith '','' partial @ ''}''
         else ''{'' @ [CHR 0x0A] @ indent' @ joinWith ('','' @ [CHR 0x0A] @ indent') partial
              @ [CHR 0x0A] @ stepback @ ''}'')"

definition stringifyJSON :: "nat \<Rightarrow> json \<Rightarrow> string" where
  "stringifyJSON space v = SerializeJSONProperty (replicate (min 10 space) CHR '' '') [] v"

text \<open>
  \<open>parseJSON input\<close> is \<open>JSON.parse(input)\<close>, \<open>None\<close> when it throws. It reads the JSON
  grammar: white space between tokens, the three literals, strings with their escapes,
  numbers, arrays and objects, and nothing but white space after the value. A later
  member with the name of an earlier one replaces its value (\<open>defineProperty\<close>). The fuel
  of \<open>parseValue\<close> is the length of the input and one more, which no value printed by
  \<open>stringifyJSON\<close> uses up. The numbers of this theory are whole, and its characters lie
  below 256: a numeral with a fraction or an exponent, and the escape of a larger
  character, have no value here and are rejected.
\<close>

definition isWhitespace :: "char \<Rightarrow> bool" where
  "isWhitespace c = (c = CHR '' '' \<or> c = CHR 0x09 \<or> c = CHR 0x0A \<or> c = CHR 0x0D)"

definition skipWhitespace :: "string \<Rightarrow> string" where
  "skipWhitespace cs = dropWhile isWhitespace cs"

definition isDigit :: "char \<Rightarrow> bool" where
  "isDigit c = (48 \<le> (of_char c :: nat) \<and> (of_char c :: nat) \<le> 57)"

definition readDigits :: "string \<Rightarrow> nat" where
  "readDigits ds = foldl (\<lambda>a c. 10 * a + (of_char c - 48)) 0 ds"

definition hexValue :: "char \<Rightarrow> nat option" where
  "hexValue c =
     (let n = (of_char c :: nat)
      in if 48 \<le> n \<and> n \<le> 57 then Some (n - 48)
         else if 97 \<le> n \<and> n \<le> 102 then Some (n - 87)
         else if 65 \<le> n \<and> n \<le> 70 then Some (n - 55)
         else None)"

definition unescape :: "char \<Rightarrow> char option" where
  "unescape e =
     (if e = dquote then Some dquote
      else if e = backslash then Some backslash
      else if e = CHR ''/'' then Some CHR ''/''
      else if e = CHR ''b'' then Some (CHR 0x08)
      else if e = CHR ''f'' then Some (CHR 0x0C)
      else if e = CHR ''n'' then Some (CHR 0x0A)
      else if e = CHR ''r'' then Some (CHR 0x0D)
      else if e = CHR ''t'' then Some (CHR 0x09)
      else None)"

definition consChar :: "char \<Rightarrow> (string \<times> string) option \<Rightarrow> (string \<times> string) option" where
  "consChar c res = map_option (\<lambda>(s, r). (c # s, r)) res"

fun readString :: "string \<Rightarrow> (string \<times> string) option" where
  "readString [] = None"
| "readString (c # cs) =
     (if c = dquote then Some ([], cs)
      else if c = backslash then
        (case cs of
           [] \<Rightarrow> None
         | e # cs' \<Rightarrow>
             if e = CHR ''u'' then
               (case cs' of
                  a # b # c' # d # cs'' \<Rightarrow>
                    (case (hexValue a, hexValue b, hexValue c', hexValue d) of
                       (Some x3, Some x2, Some x1, Some x0) \<Rightarrow>
                         if x3 = 0 \<and> x2 = 0 then consChar (char_of (16 * x1 + x0)) (readString cs'')
                         else None
                     | _ \<Rightarrow> None)
                | _ \<Rightarrow> None)
             else (case unescape e of
                     Some ch \<Rightarrow> consChar ch (readString cs')
                   | None \<Rightarrow> None))
      else if (of_char c :: nat) < 32 then None
      else consChar c (readString cs))"

definition readNumber :: "string \<Rightarrow> (number \<times> string) option" where
  "readNumber cs =
     (let negative = (cs \<noteq> [] \<and> hd cs = CHR ''-'');
          cs1 = (if negative then tl cs else cs);
          ds = takeWhile isDigit cs1;
          rest = dropWhile isDigit cs1
      in if ds = [] \<or> (length ds > 1 \<and> hd ds = CHR ''0'') then None
         else if rest \<noteq> [] \<and> hd rest \<in> set ''.eE'' then None
         else Some (Whole (if negative then - int (readDigits ds) else int (readDigits ds)), rest))"

definition readLiteral :: "string \<Rightarrow> json \<Rightarrow> string \<Rightarrow> (json \<times> string) option" where
  "readLiteral lit v cs =
     (if take (length lit) cs = lit then Some (v, drop (length lit) cs) else None)"

definition defineProperty :: "(string \<times> json) list \<Rightarrow> string \<times> json \<Rightarrow> (string \<times> json) list" where
  "defineProperty props kv =
     (if fst kv \<in> fst ` set props
      then map (\<lambda>p. if fst p = fst kv then kv else p) props
      else props @ [kv])"

definition makeObject :: "(string \<times> json) list \<Rightarrow> json" where
  "makeObject members = JObject (foldl defineProperty [] members)"

fun parseValue :: "nat \<Rightarrow> string \<Rightarrow> (json \<times> string) option"
  and parseElements :: "nat \<Rightarrow> string \<Rightarrow> (json list \<times> string) option"
  and parseMembers :: "nat \<Rightarrow> string \<Rightarrow> ((string \<times> json) list \<times> string) option" where
  "parseValue 0 cs = None"
| "parseValue (Suc fuel) cs =
     (case skipWhitespace cs of
        [] \<Rightarrow> None
      | c # r \<Rightarrow>
          if c = CHR ''{'' then
            (case skipWhitespace r of
               [] \<Rightarrow> None
             | c' # r' \<Rightarrow>
                 if c' = CHR ''}'' then Some (JObject [], r')
                 else map_option (\<lambda>(kvs, r''). (makeObject kvs, r'')) (parseMembers fuel r))
          else if c = CHR ''['' then
            (case skipWhitespace r of
               [] \<Rightarrow> None
             | c' # r' \<Rightarrow>
                 if c' = CHR '']'' then Some (JArray [], r')
                 else map_option (\<lambda>(vs, r''). (JArray vs, r'')) (parseElements fuel r))
          else if c = dquote then map_option (\<lambda>(s, r'). (JString s, r')) (readString r)
          else if c = CHR ''n'' then readLiteral ''null'' JNull (c # r)
          else if c = CHR ''t'' then readLiteral ''true'' (JBool True) (c # r)
          else if c = CHR ''f'' then readLiteral ''false'' (JBool False) (c # r)
          else map_option (\<lambda>(x, r'). (JNumber x, r')) (readNumber (c # r)))"
| "parseElements 0 cs = None"
| "parseElements (Suc fuel) cs =
     (case parseValue fuel cs of
        None \<Rightarrow> None
      | Some (v, r) \<Rightarrow>
          (case skipWhitespace r of
             [] \<Rightarrow> None
           | c # r' \<Rightarrow>
               if c = CHR '','' then map_option (\<lambda>(vs, r''). (v # vs, r'')) (parseElements fuel r')
               else if c = CHR '']'' then Some ([v], r')
               else None))"
| "parseMembers 0 cs = None"
| "parseMembers (Suc fuel) cs =
     (case skipWhitespace cs of
        [] \<Rightarrow> None
      | c # r \<Rightarrow>
          if c = dquote then
            (case readString r of
               None \<Rightarrow> None
             | Some (k, r1) \<Rightarrow>
                 (case skipWhitespace r1 of
                    [] \<Rightarrow> None
                  | c1 # r2 \<Rightarrow>
                      if c1 = CHR '':'' then
                        (case parseValue fuel r2 of
                           None \<Rightarrow> None
                         | Some (v, r3) \<Rightarrow>
                             (case skipWhitespace r3 of
                                [] \<Rightarrow> None
                              | c3 # r4 \<Rightarrow>
                                  if c3 = CHR '','' then
                                    map_option (\<lambda>(kvs, r5). ((k, v) # kvs, r5)) (parseMembers fuel r4)
                                  else if c3 = CHR ''}'' then Some ([(k, v)], r4)
                                  else None))
                      else None))
          else None)"

definition parseJSON :: "string \<Rightarrow> json option" where
  "parseJSON input =
     (case parseValue (Suc (length input)) input of
        None \<Rightarrow> None
      | Some (v, r) \<Rightarrow> if skipWhitespace r = [] then Some v else None)"

text \<open>
  What a value is after it has been printed and read: a number that is not finite has
  become \<open>null\<close>. \<open>distinctKeys\<close>: no object of the value has two members of one name.
\<close>

fun jsonify :: "json \<Rightarrow> json" where
  "jsonify (JNumber x) = (if isFinite x then JNumber x else JNull)"
| "jsonify (JArray vs) = JArray (map jsonify vs)"
| "jsonify (JObject kvs) = JObject (map (\<lambda>kv. (fst kv, jsonify (snd kv))) kvs)"
| "jsonify v = v"

fun distinctKeys :: "json \<Rightarrow> bool" where
  "distinctKeys (JArray vs) = (\<forall>v \<in> set vs. distinctKeys v)"
| "distinctKeys (JObject kvs) =
     (distinct (map fst kvs) \<and> (\<forall>kv \<in> set kvs. distinctKeys (snd kv)))"
| "distinctKeys v = True"




definition blank :: "string \<Rightarrow> bool" where
  "blank ws = (\<forall>c \<in> set ws. c = CHR '' '')"


definition endsNumber :: "string \<Rightarrow> bool" where
  "endsNumber rest = (rest = [] \<or> hd rest \<in> set [CHR '','', CHR '']'', CHR ''}'', CHR 0x0A])"

section \<open>Sequences of calls\<close>

text \<open>
  A call of one of the editing actions of the store with its arguments; \<open>AddNode\<close> also
  records the clock value \<open>Date.now()\<close> of the call. \<open>Connect\<close> appends with \<open>addEdge\<close>.
\<close>

datatype Action =
    AddNode nat NodeType XYPosition
  | DeleteNode string
  | DeleteEdge string
  | Connect Connection
  | UpdateNodeLabel string string

fun apply_action :: "FunnelStore \<Rightarrow> Action \<Rightarrow> FunnelStore" where
  "apply_action st (AddNode now ty pos) = addNode st now ty pos"
| "apply_action st (DeleteNode nid) = deleteNode st nid"
| "apply_action st (DeleteEdge eid) = deleteEdge st eid"
| "apply_action st (Connect connection) = onConnect addEdge st connection"
| "apply_action st (UpdateNodeLabel nid lbl) = updateNodeLabel st nid lbl"

definition run :: "FunnelStore \<Rightarrow> Action list \<Rightarrow> FunnelStore" where
  "run st acts = foldl apply_action st acts"

section \<open>Edges without dangling ends\<close>

text \<open>
  \<open>no_dangling\<close>: the source and the target of every edge are ids of nodes of the store.
  \<open>connects_present\<close>: in a sequence of calls run from a store, every \<open>Connect\<close> names,
  as source and as target, nodes that are present when it is called.
\<close>

definition node_ids :: "FunnelStore \<Rightarrow> string set" where
  "node_ids st = node_id ` set (nodes st)"

definition no_dangling :: "FunnelStore \<Rightarrow> bool" where
  "no_dangling st =
     list_all (\<lambda>e. source e \<in> Some ` node_ids st \<and> target e \<in> Some ` node_ids st) (edges st)"

definition endpoints_present :: "FunnelStore \<Rightarrow> Connection \<Rightarrow> bool" where
  "endpoints_present st connection =
     (conn_source connection \<in> Some ` node_ids st \<and> conn_target connection \<in> Some ` node_ids st)"

fun connects_present :: "FunnelStore \<Rightarrow> Action list \<Rightarrow> bool" where
  "connects_present st [] = True"
| "connects_present st (Connect connection # acts) =
     (endpoints_present st connection \<and> connects_present (onConnect addEdge st connection) acts)"
| "connects_present st (AddNode now ty pos # acts) =
     connects_present (addNode st now ty pos) acts"
| "connects_present st (DeleteNode nid # acts) = connects_present (deleteNode st nid) acts"
| "connects_present st (DeleteEdge eid # acts) = connects_present (deleteEdge st eid) acts"
| "connects_present st (UpdateNodeLabel nid lbl # acts) =
     connects_present (updateNodeLabel st nid lbl) acts"

section \<open>The nodes a sequence of calls creates\<close>

text \<open>
  The categories whose label carries an ordinal: those for which \<open>addNode\<close> takes the
  second branch of its conditional. \<open>created\<close> lists, in order, what the \<open>addNode\<close> calls
  of a sequence generate: the new counter value of the category (the ordinal) and the new
  node.
\<close>

definition repeatable :: "NodeType \<Rightarrow> bool" where
  "repeatable ty = (\<not> (ty = Sales \<or> ty = Order \<or> ty = Thankyou))"

fun created :: "FunnelStore \<Rightarrow> Action list \<Rightarrow> (nat \<times> FunnelNode) list" where
  "created st [] = []"
| "created st (AddNode now ty pos # acts) =
     (nodeCounters st ty + 1, newNode st now ty pos) # created (addNode st now ty pos) acts"
| "created st (a # acts) = created (apply_action st a) acts"

section \<open>A small funnel used as a concrete input\<close>

definition origin :: XYPosition where
  "origin = \<lparr>pos_x = Whole 0, pos_y = Whole 0\<rparr>"

definition below :: XYPosition where
  "below = \<lparr>pos_x = Whole 0, pos_y = Whole 200\<rparr>"

text \<open>A Sales Page created at time 1000 and a Thank You page created at time 1001.\<close>

definition twoPages :: FunnelStore where
  "twoPages = addNode (addNode initialStore 1000 Sales origin) 1001 Thankyou below"

definition salesToThankyou :: Connection where
  "salesToThankyou = \<lparr>conn_source = Some ''sales-1000'', conn_target = Some ''thankyou-1001'',
     conn_sourceHandle = None, conn_targetHandle = None\<rparr>"

definition thankyouToSales :: Connection where
  "thankyouToSales = \<lparr>conn_source = Some ''thankyou-1001'', conn_target = Some ''sales-1000'',
     conn_sourceHandle = None, conn_targetHandle = None\<rparr>"

definition connectedPages :: FunnelStore where
  "connectedPages = onConnect addEdge twoPages salesToThankyou"

definition salesToUpsell :: Connection where
  "salesToUpsell = \<lparr>conn_source = Some ''sales-1000'', conn_target = Some ''upsell-1002'',
     conn_sourceHandle = None, conn_targetHandle = None\<rparr>"

definition strayConnection :: Connection where
  "strayConnection = \<lparr>conn_source = Some ''upsell-1'', conn_target = Some ''upsell-2'',
     conn_sourceHandle = None, conn_targetHandle = None\<rparr>"

definition buildFunnel :: "Action list" where
  "buildFunnel = [AddNode 1000 Sales origin, AddNode 1001 Thankyou below,
     Connect salesToThankyou, UpdateNodeLabel ''sales-1000'' ''Landing'',
     DeleteNode ''thankyou-1001'']"

definition sameInstant :: "Action list" where
  "sameInstant = [AddNode 1000 Upsell origin, AddNode 1000 Upsell below]"


definition emptyStorage :: LocalStorage where
  "emptyStorage = \<lparr>items = [], quota = 5242880\<rparr>"

definition fullStorage :: LocalStorage where
  "fullStorage = \<lparr>items = [], quota = 0\<rparr>"

definition newline :: string where
  "newline = [CHR 0x0A]"

definition emptyExport :: string where
  \<open>emptyExport =
     ''{'' @ newline @
     ''  "nodes": [],'' @ newline @
     ''  "edges": [],'' @ newline @
     ''  "nodeCounters": {'' @ newline @
     ''    "sales": 0,'' @ newline @
     ''    "order": 0,'' @ newline @
     ''    "upsell": 0,'' @ newline @
     ''    "downsell": 0,'' @ newline @
     ''    "thankyou": 0'' @ newline @
     ''  }'' @ newline @
     ''}''\<close>

definition noCounters :: string where
  \<open>noCounters = ''{"nodes": [], "edges": [], "nodeCounters": null}''\<close>

definition nodesNotArray :: string where
  \<open>nodesNotArray = ''{"nodes": 1, "edges": []}''\<close>

section \<open>Theorems\<close>

subsection \<open>Unfolding onConnect\<close>

lemma onConnect_cases:
  "onConnect add_edge st connection =
     (case findSourceNode st connection of
        Some sourceNode \<Rightarrow>
          if data_type (data sourceNode) = Thankyou then st
          else st\<lparr>edges := add_edge (newEdge connection) (edges st)\<rparr>
      | None \<Rightarrow> st\<lparr>edges := add_edge (newEdge connection) (edges st)\<rparr>)"
  by (simp add: onConnect_def Let_def split: option.splits)

subsection \<open>Facts about the printed strings\<close>

lemma decimal_nonempty: "decimal n \<noteq> []"
  by (subst decimal.simps) simp

lemma digit_inj:
  assumes "a < 10" and "b < 10"
    and "(char_of (48 + a) :: char) = char_of (48 + b)"
  shows "a = (b::nat)"
proof -
  from assms(3)
  have "(of_char (char_of (48 + a) :: char) :: nat) = of_char (char_of (48 + b) :: char)"
    by simp
  then have "(48 + a) mod 256 = (48 + b) mod 256"
    by (simp only: of_char_of)
  with assms(1,2) show ?thesis by simp
qed

lemma decimal_inj: "decimal m = decimal n \<Longrightarrow> m = n"
proof (induction m arbitrary: n rule: decimal.induct)
  case (1 m)
  show ?case
  proof (cases "m < 10")
    case True
    show ?thesis
    proof (cases "n < 10")
      case True
      with \<open>m < 10\<close> "1.prems" show ?thesis
        by (simp add: decimal.simps[of m] decimal.simps[of n] digit_inj)
    next
      case False
      with \<open>m < 10\<close> "1.prems" decimal_nonempty[of "n div 10"] show ?thesis
        by (simp add: decimal.simps[of m] decimal.simps[of n])
    qed
  next
    case False
    show ?thesis
    proof (cases "n < 10")
      case True
      with \<open>\<not> m < 10\<close> "1.prems" decimal_nonempty[of "m div 10"] show ?thesis
        by (simp add: decimal.simps[of m] decimal.simps[of n])
    next
      case nb: False
      with False "1.prems" have eq: "decimal (m div 10) = decimal (n div 10)"
        and ch: "(char_of (48 + m mod 10) :: char) = char_of (48 + n mod 10)"
        by (simp_all add: decimal.simps[of m] decimal.simps[of n])
      from "1.IH"[OF False eq] have "m div 10 = n div 10" .
      moreover from ch have "m mod 10 = n mod 10"
        by (intro digit_inj) simp_all
      ultimately show ?thesis
        by (metis div_mult_mod_eq)
    qed
  qed
qed

lemma decimal_1000: "decimal 1000 = ''1000''"
  by code_simp

lemma decimal_1001: "decimal 1001 = ''1001''"
  by code_simp

lemma decimal_0: "decimal 0 = ''0''"
  by code_simp

lemma decimal_Suc:
  "decimal (Suc 0) = ''1''"
  "decimal (Suc (Suc 0)) = ''2''"
  by code_simp+

subsection \<open>The concrete funnel evaluated\<close>

lemma twoPages_nodes:
  "nodes twoPages =
     [\<lparr>node_id = ''sales-1000'', node_type = Some ''funnelNode'', position = origin,
       data = \<lparr>data_type = Sales, label = ''Sales Page'', buttonLabel = ''Buy Now'',
               hasWarning = None, warningMessage = None\<rparr>\<rparr>,
      \<lparr>node_id = ''thankyou-1001'', node_type = Some ''funnelNode'', position = below,
       data = \<lparr>data_type = Thankyou, label = ''Thank You'', buttonLabel = ''Continue'',
               hasWarning = None, warningMessage = None\<rparr>\<rparr>]"
  by (simp add: twoPages_def addNode_def newNode_def newNodeId_def newLabel_def
      initialStore_def decimal_1000 decimal_1001)

lemma twoPages_edges: "edges twoPages = []"
  by (simp add: twoPages_def addNode_def initialStore_def)

text \<open>
  C1. Whenever the node that \<open>onConnect\<close> looks up for the source id \<open>a\<close> is present and
  is a Thank You page, \<open>connect(a, b)\<close> returns the store as it was: no edge is added and
  nodes, edges and counters are unchanged, for every target \<open>b\<close>, all handles and whatever
  function is used to append.
\<close>

theorem onConnect_thankyou_rejected:
  assumes "find (\<lambda>n. node_id n = a) (nodes st) = Some n"
    and "data_type (data n) = Thankyou"
    and "conn_source connection = Some a"
  shows "onConnect add_edge st connection = st"
proof -
  have "(\<lambda>n. Some (node_id n) = Some a) = (\<lambda>n. node_id n = a)"
    by auto
  with assms(1,3) have "findSourceNode st connection = Some n"
    by (simp add: findSourceNode_def)
  with assms(2) show ?thesis
    by (simp add: onConnect_cases)
qed

theorem onConnect_thankyou_rejected_witness:
  "find (\<lambda>n. node_id n = ''thankyou-1001'') (nodes twoPages) = Some (nodes twoPages ! 1)
   \<and> data_type (data (nodes twoPages ! 1)) = Thankyou
   \<and> conn_source thankyouToSales = Some ''thankyou-1001''
   \<and> onConnect addEdge twoPages thankyouToSales = twoPages"
proof -
  have f: "find (\<lambda>n. node_id n = ''thankyou-1001'') (nodes twoPages) = Some (nodes twoPages ! 1)"
    by (simp add: twoPages_nodes)
  have t: "data_type (data (nodes twoPages ! 1)) = Thankyou"
    by (simp add: twoPages_nodes)
  have c: "conn_source thankyouToSales = Some ''thankyou-1001''"
    by (simp add: thankyouToSales_def)
  from onConnect_thankyou_rejected [OF f t c, of addEdge] f t c show ?thesis
    by simp
qed

text \<open>
  C5. After \<open>deleteNode(nodeId)\<close> no node of the store has the id \<open>nodeId\<close> and no edge of
  the store has \<open>nodeId\<close> as its source or as its target; the counters are untouched.
\<close>

theorem deleteNode_cascade:
  "nid \<notin> node_id ` set (nodes (deleteNode st nid))
   \<and> Some nid \<notin> source ` set (edges (deleteNode st nid))
   \<and> Some nid \<notin> target ` set (edges (deleteNode st nid))
   \<and> nodeCounters (deleteNode st nid) = nodeCounters st"
  by (auto simp: deleteNode_def)

text \<open>
  C4, as the claim states it, fails: \<open>updateNodeLabel\<close> has no check of the new label. A
  label of two blanks, empty after trimming, replaces the label of the Sales Page.
\<close>

theorem updateNodeLabel_blank_counterexample:
  "trimSpaces ''  '' = [] \<and> updateNodeLabel twoPages ''sales-1000'' ''  '' \<noteq> twoPages
   \<and> map (\<lambda>n. label (data n)) (nodes (updateNodeLabel twoPages ''sales-1000'' ''  ''))
      = [''  '', ''Thank You'']"
proof -
  have t: "trimSpaces ''  '' = []"
    by (simp add: trimSpaces_def isSpace_def)
  have l: "map (\<lambda>n. label (data n)) (nodes (updateNodeLabel twoPages ''sales-1000'' ''  ''))
      = [''  '', ''Thank You'']"
    by (simp add: updateNodeLabel_def twoPages_nodes)
  have "map (\<lambda>n. label (data n)) (nodes twoPages) = [''Sales Page'', ''Thank You'']"
    by (simp add: twoPages_nodes)
  with l have "updateNodeLabel twoPages ''sales-1000'' ''  '' \<noteq> twoPages"
    by auto
  with t l show ?thesis by simp
qed

lemma updateNodeLabel_absent:
  assumes "nid \<notin> node_id ` set (nodes st)"
  shows "updateNodeLabel st nid lbl = st"
proof -
  have "map (\<lambda>node. if node_id node = nid
          then node\<lparr>data := (data node)\<lparr>label := lbl\<rparr>\<rparr> else node) (nodes st) = nodes st"
    using assms by (intro map_idI) auto
  then show ?thesis by (simp add: updateNodeLabel_def)
qed

text \<open>
  C4, amended. \<open>updateNodeLabel\<close> keeps the number and order of the nodes, replaces the
  label of every node with the given id by the new label, whatever that label is, and
  leaves every other node, the edges and the counters as they are; it changes nothing
  when no node has the id. The check for a label that is empty after trimming is made
  by the caller: \<open>handleBlur\<close> leaves the store unchanged for such a text.
\<close>

theorem updateNodeLabel_relabels:
  "length (nodes (updateNodeLabel st nid lbl)) = length (nodes st)
   \<and> (\<forall>i < length (nodes st).
         nodes (updateNodeLabel st nid lbl) ! i =
           (if node_id (nodes st ! i) = nid
            then (nodes st ! i)\<lparr>data := (data (nodes st ! i))\<lparr>label := lbl\<rparr>\<rparr>
            else nodes st ! i))
   \<and> edges (updateNodeLabel st nid lbl) = edges st
   \<and> nodeCounters (updateNodeLabel st nid lbl) = nodeCounters st
   \<and> (nid \<notin> node_id ` set (nodes st) \<longrightarrow> updateNodeLabel st nid lbl = st)
   \<and> (trim editLabel = [] \<longrightarrow> handleBlur trim st nid currentLabel editLabel = st)"
  using updateNodeLabel_absent[of nid st lbl]
  by (simp add: updateNodeLabel_def handleBlur_def)

theorem updateNodeLabel_relabels_witness:
  "(0::nat) < length (nodes twoPages)
   \<and> nodes (updateNodeLabel twoPages ''sales-1000'' ''Landing'') ! 0
       = (nodes twoPages ! 0)\<lparr>data := (data (nodes twoPages ! 0))\<lparr>label := ''Landing''\<rparr>\<rparr>
   \<and> ''order-7'' \<notin> node_id ` set (nodes twoPages)
   \<and> updateNodeLabel twoPages ''order-7'' ''Landing'' = twoPages
   \<and> trimSpaces ''  '' = []
   \<and> handleBlur trimSpaces twoPages ''sales-1000'' ''Sales Page'' ''  '' = twoPages"
proof -
  have n: "(0::nat) < length (nodes twoPages)"
    and i: "node_id (nodes twoPages ! 0) = ''sales-1000''"
    and a: "''order-7'' \<notin> node_id ` set (nodes twoPages)"
    by (simp_all add: twoPages_nodes)
  have t: "trimSpaces ''  '' = []"
    by (simp add: trimSpaces_def isSpace_def)
  from updateNodeLabel_relabels [of twoPages "''sales-1000''" "''Landing''" trimSpaces "''  ''"
      "''Sales Page''"] n i t
  have 1: "nodes (updateNodeLabel twoPages ''sales-1000'' ''Landing'') ! 0
       = (nodes twoPages ! 0)\<lparr>data := (data (nodes twoPages ! 0))\<lparr>label := ''Landing''\<rparr>\<rparr>"
    and 2: "handleBlur trimSpaces twoPages ''sales-1000'' ''Sales Page'' ''  '' = twoPages"
    by auto
  from updateNodeLabel_relabels [of twoPages "''order-7''" "''Landing''" trimSpaces "''  ''"
      "''Sales Page''"] a
  have 3: "updateNodeLabel twoPages ''order-7'' ''Landing'' = twoPages"
    by blast
  from n a t 1 2 3 show ?thesis by simp
qed

lemma connectionExists_self: "connectionExists e (es @ [e])"
  by (simp add: connectionExists_def)

lemma addEdge_idem: "addEdge e (addEdge e es) = addEdge e es"
  by (simp add: addEdge_def connectionExists_self)

lemma findSourceNode_edges [simp]:
  "findSourceNode (st\<lparr>edges := es\<rparr>) connection = findSourceNode st connection"
  by (simp add: findSourceNode_def)

lemma connectedOnce_edges:
  "edges (onConnect addEdge twoPages salesToThankyou) = [newEdge salesToThankyou]"
  by (simp add: onConnect_cases findSourceNode_def twoPages_nodes twoPages_edges
      salesToThankyou_def addEdge_def connectionExists_def newEdge_def)

lemma onConnect_addEdge_twice:
  "onConnect addEdge (onConnect addEdge st connection) connection
     = onConnect addEdge st connection"
  by (simp add: onConnect_cases addEdge_idem split: option.splits)

text \<open>
  C2, as the claim states it, fails: in the scenario of the spec the first
  \<open>connect(E, C)\<close> adds the edge, and the second call with the same endpoints and handles
  leaves one edge, not two.
\<close>

theorem onConnect_twice_counterexample:
  "length (edges (onConnect addEdge twoPages salesToThankyou)) = 1
   \<and> length (edges (onConnect addEdge (onConnect addEdge twoPages salesToThankyou)
        salesToThankyou)) \<noteq> 2"
  by (simp add: onConnect_addEdge_twice connectedOnce_edges)

text \<open>
  The outcome rests on \<open>addEdge\<close> alone: were the edge appended without its check, the
  same two calls would leave two edges.
\<close>

lemma onConnect_plain_append_twice:
  "length (edges (onConnect (\<lambda>e es. es @ [e])
      (onConnect (\<lambda>e es. es @ [e]) twoPages salesToThankyou) salesToThankyou)) = 2"
  by (simp add: onConnect_cases findSourceNode_def twoPages_nodes twoPages_edges
      salesToThankyou_def)

text \<open>
  C2, amended. A second \<open>connect\<close> with the same endpoints and handles as the one before
  leaves the store exactly as the first call left it: \<open>addEdge\<close> skips a connection that
  an edge of the list already makes, so the edge count does not grow.
\<close>

theorem onConnect_repeat_unchanged:
  "onConnect addEdge (onConnect addEdge st connection) connection
     = onConnect addEdge st connection
   \<and> length (edges (onConnect addEdge (onConnect addEdge st connection) connection))
     = length (edges (onConnect addEdge st connection))"
  by (simp add: onConnect_addEdge_twice)

lemma connectedPages_nodes: "nodes connectedPages = nodes twoPages"
  by (simp add: connectedPages_def onConnect_cases split: option.splits)

lemma connectedPages_edges: "edges connectedPages = [newEdge salesToThankyou]"
  by (simp add: connectedPages_def connectedOnce_edges)

lemma connectedPages_valid: "getValidationIssues connectedPages = []"
  by (simp add: getValidationIssues_def orphanIssues_def salesIssues_def thankYouIssues_def
      entryPointIssues_def entryPoints_def hasIncoming_def hasOutgoing_def outgoing_def
      connectedPages_nodes connectedPages_edges twoPages_nodes newEdge_def salesToThankyou_def)

text \<open>
  C8, as the claim states it, fails: the Sales Page of the connected funnel has one
  outgoing edge, and a \<open>connect\<close> along that edge again appends nothing, so that
  validation reports no warning at all.
\<close>

theorem onConnect_sales_again_counterexample:
  "find (\<lambda>n. node_id n = ''sales-1000'') (nodes connectedPages) = Some (nodes connectedPages ! 0)
   \<and> data_type (data (nodes connectedPages ! 0)) = Sales
   \<and> length (outgoing connectedPages (nodes connectedPages ! 0)) = 1
   \<and> edges (onConnect addEdge connectedPages salesToThankyou) = edges connectedPages
   \<and> getValidationIssues (onConnect addEdge connectedPages salesToThankyou) = []"
proof -
  have "onConnect addEdge connectedPages salesToThankyou = connectedPages"
    by (simp add: connectedPages_def onConnect_addEdge_twice)
  then show ?thesis
    by (simp add: connectedPages_valid connectedPages_nodes twoPages_nodes outgoing_def
        connectedPages_edges newEdge_def salesToThankyou_def)
qed

lemma find_SomeD: "find P xs = Some x \<Longrightarrow> x \<in> set xs \<and> P x"
  by (auto simp: find_Some_iff)

text \<open>
  C8, amended. When the node found for the source id \<open>a\<close> is a Sales Page that already
  has an outgoing edge, and the connection has a non-empty source and target and is not
  yet made by an edge of the store (same source and target, handles equal or both
  falsy), \<open>connect\<close> appends the new edge and \<open>getValidationIssues\<close> then reports the
  warning about multiple outgoing connections with \<open>nodeId\<close> \<open>a\<close>.
\<close>

theorem onConnect_sales_fanout_warning:
  assumes "find (\<lambda>n. node_id n = a) (nodes st) = Some n"
    and "data_type (data n) = Sales"
    and "\<exists>e \<in> set (edges st). source e = Some a"
    and "conn_source connection = Some a"
    and "a \<noteq> []"
    and "\<not> falsy (conn_target connection)"
    and "\<not> connectionExists (newEdge connection) (edges st)"
  shows "edges (onConnect addEdge st connection) = edges st @ [newEdge connection]
    \<and> \<lparr>issue_type = Warning,
        message = quoted (label (data n)) @ '' has multiple outgoing connections (should have 1)'',
        nodeId = Some a\<rparr> \<in> set (getValidationIssues (onConnect addEdge st connection))"
proof -
  have "(\<lambda>n. Some (node_id n) = Some a) = (\<lambda>n. node_id n = a)"
    by auto
  with assms(1,4) have f: "findSourceNode st connection = Some n"
    by (simp add: findSourceNode_def)
  have src: "source (newEdge connection) = Some a"
    using assms(4) by (simp add: newEdge_def)
  have "addEdge (newEdge connection) (edges st) = edges st @ [newEdge connection]"
    using assms(4-7) by (simp add: addEdge_def newEdge_def)
  with f assms(2) have st': "onConnect addEdge st connection
      = st\<lparr>edges := edges st @ [newEdge connection]\<rparr>"
    by (simp add: onConnect_cases)
  from assms(1) have n: "n \<in> set (nodes st)" and ida: "node_id n = a"
    using find_SomeD[of "\<lambda>n. node_id n = a" "nodes st" n] by simp_all
  from assms(3) have "filter (\<lambda>e. source e = Some a) (edges st) \<noteq> []"
    by (auto simp: filter_empty_conv)
  with src ida have "length (outgoing (st\<lparr>edges := edges st @ [newEdge connection]\<rparr>) n) > 1"
    by (simp add: outgoing_def)
  with n assms(2) ida
  have "\<lparr>issue_type = Warning,
        message = quoted (label (data n)) @ '' has multiple outgoing connections (should have 1)'',
        nodeId = Some a\<rparr> \<in> set (salesIssues (st\<lparr>edges := edges st @ [newEdge connection]\<rparr>))"
    unfolding salesIssues_def by (auto intro!: bexI[of _ n])
  with st' show ?thesis
    by (simp add: getValidationIssues_def)
qed

theorem onConnect_sales_fanout_warning_witness:
  "edges (onConnect addEdge connectedPages salesToUpsell)
     = [newEdge salesToThankyou, newEdge salesToUpsell]
   \<and> \<lparr>issue_type = Warning,
       message = quoted ''Sales Page'' @ '' has multiple outgoing connections (should have 1)'',
       nodeId = Some ''sales-1000''\<rparr>
     \<in> set (getValidationIssues (onConnect addEdge connectedPages salesToUpsell))"
proof -
  have 1: "find (\<lambda>n. node_id n = ''sales-1000'') (nodes connectedPages) = Some (nodes twoPages ! 0)"
    and 2: "data_type (data (nodes twoPages ! 0)) = Sales"
    and 3: "\<exists>e \<in> set (edges connectedPages). source e = Some ''sales-1000''"
    and 4: "conn_source salesToUpsell = Some ''sales-1000''"
    and 5: "''sales-1000'' \<noteq> []"
    and 6: "\<not> falsy (conn_target salesToUpsell)"
    and 7: "\<not> connectionExists (newEdge salesToUpsell) (edges connectedPages)"
    and 8: "label (data (nodes twoPages ! 0)) = ''Sales Page''"
    by (simp_all add: connectedPages_nodes connectedPages_edges twoPages_nodes newEdge_def
        salesToThankyou_def salesToUpsell_def connectionExists_def)
  from onConnect_sales_fanout_warning [OF 1 2 3 4 5 6 7] 8 show ?thesis
    by (simp add: connectedPages_edges)
qed


text \<open>
  C9, as the claim states it, fails: \<open>onConnect\<close> does not look whether its endpoints
  exist, so one \<open>connect\<close> on the empty store leaves an edge and no node.
\<close>

theorem connect_dangling_counterexample:
  "nodes (run initialStore [Connect strayConnection]) = []
   \<and> edges (run initialStore [Connect strayConnection]) = [newEdge strayConnection]
   \<and> source (newEdge strayConnection) = Some ''upsell-1''
   \<and> \<not> no_dangling (run initialStore [Connect strayConnection])"
  by (simp add: run_def onConnect_cases findSourceNode_def initialStore_def addEdge_def
      connectionExists_def newEdge_def strayConnection_def no_dangling_def node_ids_def)

lemma addEdge_set: "set (addEdge e es) \<subseteq> insert e (set es)"
  by (auto simp: addEdge_def)

lemma onConnect_nodes [simp]: "nodes (onConnect add_edge st connection) = nodes st"
  by (simp add: onConnect_cases split: option.splits)

lemma onConnect_edges_subset:
  "set (edges (onConnect addEdge st connection)) \<subseteq> insert (newEdge connection) (set (edges st))"
  using addEdge_set[of "newEdge connection" "edges st"]
  by (auto simp: onConnect_cases split: option.splits if_splits)

lemma no_dangling_addNode: "no_dangling st \<Longrightarrow> no_dangling (addNode st now ty pos)"
  by (auto simp: no_dangling_def node_ids_def addNode_def list_all_iff)

lemma no_dangling_deleteNode: "no_dangling st \<Longrightarrow> no_dangling (deleteNode st nid)"
  by (auto simp: no_dangling_def node_ids_def deleteNode_def list_all_iff)

lemma no_dangling_deleteEdge: "no_dangling st \<Longrightarrow> no_dangling (deleteEdge st eid)"
  by (auto simp: no_dangling_def node_ids_def deleteEdge_def list_all_iff)

lemma updateNodeLabel_ids:
  "map node_id (nodes (updateNodeLabel st nid lbl)) = map node_id (nodes st)"
  by (simp add: updateNodeLabel_def)

lemma node_ids_updateNodeLabel [simp]: "node_ids (updateNodeLabel st nid lbl) = node_ids st"
  using arg_cong [OF updateNodeLabel_ids, of set st nid lbl]
  by (simp add: node_ids_def)

lemma no_dangling_updateNodeLabel: "no_dangling st \<Longrightarrow> no_dangling (updateNodeLabel st nid lbl)"
  unfolding no_dangling_def node_ids_updateNodeLabel by (simp add: updateNodeLabel_def)

lemma no_dangling_onConnect:
  assumes "no_dangling st" and "endpoints_present st connection"
  shows "no_dangling (onConnect addEdge st connection)"
proof -
  have ids: "node_ids (onConnect addEdge st connection) = node_ids st"
    by (simp add: node_ids_def)
  show ?thesis
    unfolding no_dangling_def list_all_iff ids
  proof
    fix e assume "e \<in> set (edges (onConnect addEdge st connection))"
    with onConnect_edges_subset have "e = newEdge connection \<or> e \<in> set (edges st)"
      by blast
    then show "source e \<in> Some ` node_ids st \<and> target e \<in> Some ` node_ids st"
    proof
      assume "e = newEdge connection"
      with assms(2) show ?thesis
        by (simp add: endpoints_present_def newEdge_def)
    next
      assume "e \<in> set (edges st)"
      with assms(1) show ?thesis
        by (simp add: no_dangling_def list_all_iff)
    qed
  qed
qed

lemma no_dangling_run:
  "no_dangling st \<Longrightarrow> connects_present st acts \<Longrightarrow> no_dangling (run st acts)"
proof (induction st acts rule: connects_present.induct)
  case (1 st)
  then show ?case by (simp add: run_def)
next
  case (2 st connection acts)
  then show ?case by (simp add: run_def no_dangling_onConnect)
next
  case (3 st now ty pos acts)
  then show ?case by (simp add: run_def no_dangling_addNode)
next
  case (4 st nid acts)
  then show ?case by (simp add: run_def no_dangling_deleteNode)
next
  case (5 st eid acts)
  then show ?case by (simp add: run_def no_dangling_deleteEdge)
next
  case (6 st nid lbl acts)
  then show ?case by (simp add: run_def no_dangling_updateNodeLabel)
qed

lemma no_dangling_initial: "no_dangling initialStore"
  by (simp add: no_dangling_def initialStore_def)

text \<open>
  C9, amended. In every store reached from the empty one by calls of \<open>addNode\<close>,
  \<open>deleteNode\<close>, \<open>deleteEdge\<close>, \<open>connect\<close> and \<open>updateNodeLabel\<close> in which each \<open>connect\<close>
  names present nodes as its source and its target, the source and the target of every
  edge are ids of nodes of the store.
\<close>

theorem reachable_no_dangling:
  assumes "connects_present initialStore acts"
  shows "no_dangling (run initialStore acts)"
  using no_dangling_run [OF no_dangling_initial assms] .

lemma twoPages_run: "run initialStore [AddNode 1000 Sales origin, AddNode 1001 Thankyou below] = twoPages"
  by (simp add: run_def twoPages_def)

theorem reachable_no_dangling_witness:
  "connects_present initialStore buildFunnel
   \<and> no_dangling (run initialStore buildFunnel)
   \<and> map node_id (nodes (run initialStore buildFunnel)) = [''sales-1000'']
   \<and> edges (run initialStore buildFunnel) = []"
proof -
  have c: "connects_present initialStore buildFunnel"
    using twoPages_nodes
    by (simp add: buildFunnel_def twoPages_def [symmetric] endpoints_present_def node_ids_def
        salesToThankyou_def)
  have n: "map node_id (nodes (run initialStore buildFunnel)) = [''sales-1000'']"
    using twoPages_nodes
    by (simp add: buildFunnel_def run_def twoPages_def [symmetric] deleteNode_def
        updateNodeLabel_def)
  have e: "edges (run initialStore buildFunnel) = []"
    using connectedOnce_edges
    by (simp add: buildFunnel_def run_def twoPages_def [symmetric] deleteNode_def
        updateNodeLabel_def newEdge_def salesToThankyou_def)
  from reachable_no_dangling [OF c] c n e show ?thesis by simp
qed


text \<open>
  C3 asks that all generated node ids be pairwise distinct. The id \<open>addNode\<close> generates is
  the category and the clock value of the call, so two \<open>addNode\<close> calls of one category at
  the same clock value leave two nodes with one id in the store, and a single
  \<open>deleteNode\<close> of that id then removes both.
\<close>

theorem addNode_same_instant_collision:
  "map node_id (nodes (run initialStore sameInstant)) = [''upsell-1000'', ''upsell-1000'']
   \<and> map (label \<circ> data) (nodes (run initialStore sameInstant)) = [''Upsell 1'', ''Upsell 2'']
   \<and> \<not> distinct (map node_id (nodes (run initialStore sameInstant)))
   \<and> nodes (deleteNode (run initialStore sameInstant) ''upsell-1000'') = []"
  by (simp add: sameInstant_def run_def addNode_def newNode_def newNodeId_def newLabel_def
      initialStore_def getInitialCounters_def deleteNode_def decimal_1000 decimal_Suc)

lemma counters_deleteNode [simp]: "nodeCounters (deleteNode st nid) = nodeCounters st"
  by (simp add: deleteNode_def)

lemma counters_deleteEdge [simp]: "nodeCounters (deleteEdge st eid) = nodeCounters st"
  by (simp add: deleteEdge_def)

lemma counters_onConnect [simp]: "nodeCounters (onConnect add_edge st connection) = nodeCounters st"
  by (simp add: onConnect_cases split: option.splits)

lemma counters_updateNodeLabel [simp]: "nodeCounters (updateNodeLabel st nid lbl) = nodeCounters st"
  by (simp add: updateNodeLabel_def)

lemma counters_addNode:
  "nodeCounters (addNode st now ty pos) = (nodeCounters st)(ty := nodeCounters st ty + 1)"
  by (simp add: addNode_def)

lemma newNode_data [simp]:
  "data_type (data (newNode st now ty pos)) = ty"
  "label (data (newNode st now ty pos)) = newLabel ty (nodeCounters st ty + 1)"
  "node_id (newNode st now ty pos) = newNodeId ty now"
  by (simp_all add: newNode_def)

lemma created_ordinal:
  "(k, n) \<in> set (created st acts) \<Longrightarrow>
     nodeCounters st (data_type (data n)) < k \<and> label (data n) = newLabel (data_type (data n)) k"
proof (induction st acts rule: created.induct)
  case (2 st now ty pos acts)
  show ?case
  proof (cases "(k, n) = (nodeCounters st ty + 1, newNode st now ty pos)")
    case True
    then show ?thesis by simp
  next
    case False
    with "2.prems" have "(k, n) \<in> set (created (addNode st now ty pos) acts)"
      by auto
    from "2.IH" [OF this] show ?thesis
      by (auto simp: counters_addNode split: if_splits)
  qed
qed simp_all

lemma newLabel_inj:
  assumes "repeatable ty" and "repeatable ty'" and "newLabel ty k = newLabel ty' k'"
  shows "ty = ty' \<and> k = k'"
  using assms by (cases ty; cases ty') (auto simp: repeatable_def newLabel_def dest: decimal_inj)

lemma newNodeId_inj:
  assumes "newNodeId ty now = newNodeId ty' now'"
  shows "ty = ty' \<and> now = now'"
  using assms by (cases ty; cases ty') (auto simp: newNodeId_def dest: decimal_inj)

lemma created_sorted:
  "sorted_wrt (<) (map fst (filter (\<lambda>(k, n). data_type (data n) = ty) (created st acts)))"
proof (induction st acts rule: created.induct)
  case (2 st now ty' pos acts)
  have "nodeCounters st ty' + 1 < k"
    if "(k, n) \<in> set (created (addNode st now ty' pos) acts)" and "data_type (data n) = ty'" for k n
    using created_ordinal [OF that(1)] that(2) by (simp add: counters_addNode)
  with "2.IH" show ?case
    by auto
qed simp_all

lemma created_labels_distinct:
  "distinct (map (label \<circ> data \<circ> snd)
     (filter (\<lambda>(k, n). repeatable (data_type (data n))) (created st acts)))"
proof (induction st acts rule: created.induct)
  case (2 st now ty pos acts)
  let ?rest = "filter (\<lambda>(k, n). repeatable (data_type (data n)))
     (created (addNode st now ty pos) acts)"
  have fresh: "newLabel ty (nodeCounters st ty + 1) \<notin> set (map (label \<circ> data \<circ> snd) ?rest)"
    if rep: "repeatable ty"
  proof
    assume "newLabel ty (nodeCounters st ty + 1) \<in> set (map (label \<circ> data \<circ> snd) ?rest)"
    then obtain k n where mem: "(k, n) \<in> set (created (addNode st now ty pos) acts)"
      and rn: "repeatable (data_type (data n))"
      and eq: "label (data n) = newLabel ty (nodeCounters st ty + 1)"
      by auto
    from created_ordinal [OF mem]
    have lt: "nodeCounters (addNode st now ty pos) (data_type (data n)) < k"
      and lb: "label (data n) = newLabel (data_type (data n)) k"
      by simp_all
    from newLabel_inj [OF rn rep] eq lb
    have "data_type (data n) = ty \<and> k = nodeCounters st ty + 1"
      by simp
    with lt show False
      by (simp add: counters_addNode)
  qed
  show ?case
  proof (cases "repeatable ty")
    case True
    from fresh [OF True] "2.IH" show ?thesis
      by (simp add: True)
  next
    case False
    with "2.IH" show ?thesis by simp
  qed
qed simp_all

text \<open>
  The labels and ordinals of C3 hold as the claim states them. For every sequence of
  calls run from any store: the generated labels of the repeatable categories are
  pairwise distinct; for each category the ordinals are strictly increasing in the order
  of creation, whatever is deleted in between; and the label of a repeatable category is
  the category's name, a blank and the ordinal in decimal.
\<close>

lemma created_labels_and_ordinals:
  "distinct (map (label \<circ> data \<circ> snd)
        (filter (\<lambda>(k, n). repeatable (data_type (data n))) (created st acts)))
   \<and> sorted_wrt (<) (map fst (filter (\<lambda>(k, n). data_type (data n) = ty) (created st acts)))
   \<and> (\<forall>(k, n) \<in> set (created st acts). repeatable (data_type (data n)) \<longrightarrow>
         label (data n) = cfg_label (NODE_CONFIGS (data_type (data n))) @ '' '' @ decimal k)"
proof -
  have "label (data n) = cfg_label (NODE_CONFIGS (data_type (data n))) @ '' '' @ decimal k"
    if "(k, n) \<in> set (created st acts)" and "repeatable (data_type (data n))" for k n
    using created_ordinal [OF that(1)] that(2) by (simp add: newLabel_def repeatable_def)
  then show ?thesis
    using created_labels_distinct created_sorted by blast
qed

subsection \<open>Import and export\<close>

lemma destructure_None: "destructure v = None \<longleftrightarrow> v = JNull"
  by (cases v) simp_all

lemma destructure_Some:
  "v \<noteq> JNull \<Longrightarrow> destructure v = Some (field v ''nodes'', field v ''edges'', field v ''nodeCounters'')"
  by (cases v) simp_all

lemma parse_not_json: "parseJSON ''not json'' = None"
  by code_simp

lemma parse_nodesNotArray:
  "parseJSON nodesNotArray = Some (JObject [(''nodes'', JNumber (Whole 1)), (''edges'', JArray [])])"
  by code_simp

lemma parse_noCounters:
  "parseJSON noCounters
     = Some (JObject [(''nodes'', JArray []), (''edges'', JArray []), (''nodeCounters'', JNull)])"
  by code_simp

lemma print_empty_store: "exportJSON stringifyJSON (toJs initialStore) = emptyExport"
  by (simp add: exportJSON_def stringifyJSON_def snapshot_json_def toJs_def initialStore_def
      counters_json_def getInitialCounters_def emptyExport_def newline_def QuoteJSONString_def
      quoteChar_def dquote_def backslash_def numberToString_def joinWith_def Let_def
      decimal_0 numeral_2_eq_2)

lemma zero_text_length:
  "length (stringifyJSON 0 (snapshot_json (toJs initialStore))) = 97"
  by code_simp

text \<open>
  C6. When the input is not parseable, or parses to a value whose \<open>nodes\<close> or whose
  \<open>edges\<close> is not an array, \<open>importJSON\<close> returns \<open>false\<close>, the store is the one before
  the call and \<open>localStorage\<close> is not written.
\<close>

theorem importJSON_rejects:
  assumes "JSON_parse input = None
     \<or> (\<exists>v. JSON_parse input = Some v
            \<and> (\<not> isArray (field v ''nodes'') \<or> \<not> isArray (field v ''edges'')))"
  shows "importJSON JSON_parse JSON_stringify st localStorage input = (False, st, localStorage)"
  using assms
proof
  assume "JSON_parse input = None"
  then show ?thesis by (simp add: importJSON_def)
next
  assume "\<exists>v. JSON_parse input = Some v
            \<and> (\<not> isArray (field v ''nodes'') \<or> \<not> isArray (field v ''edges''))"
  then obtain v where p: "JSON_parse input = Some v"
    and a: "\<not> isArray (field v ''nodes'') \<or> \<not> isArray (field v ''edges'')"
    by blast
  show ?thesis
  proof (cases "v = JNull")
    case True
    with p show ?thesis by (simp add: importJSON_def)
  next
    case False
    from destructure_Some [OF False] p a show ?thesis
      by (auto simp: importJSON_def)
  qed
qed

theorem importJSON_rejects_witness:
  "parseJSON ''not json'' = None
   \<and> importJSON parseJSON stringifyJSON (toJs twoPages) emptyStorage ''not json''
       = (False, toJs twoPages, emptyStorage)
   \<and> \<not> isArray (field (JObject [(''nodes'', JNumber (Whole 1)), (''edges'', JArray [])]) ''nodes'')
   \<and> importJSON parseJSON stringifyJSON (toJs twoPages) emptyStorage nodesNotArray
       = (False, toJs twoPages, emptyStorage)"
proof -
  have a: "\<not> isArray (field (JObject [(''nodes'', JNumber (Whole 1)), (''edges'', JArray [])]) ''nodes'')"
    by simp
  from importJSON_rejects [of parseJSON "''not json''" stringifyJSON "toJs twoPages" emptyStorage]
    parse_not_json
  have 1: "importJSON parseJSON stringifyJSON (toJs twoPages) emptyStorage ''not json''
       = (False, toJs twoPages, emptyStorage)"
    by simp
  from importJSON_rejects [of parseJSON nodesNotArray stringifyJSON "toJs twoPages" emptyStorage]
    parse_nodesNotArray a
  have 2: "importJSON parseJSON stringifyJSON (toJs twoPages) emptyStorage nodesNotArray
       = (False, toJs twoPages, emptyStorage)"
    by blast
  from parse_not_json a 1 2 show ?thesis by simp
qed

text \<open>
  C10, as the claim states it, fails: \<open>saveToStorage\<close> runs inside the \<open>try\<close> of
  \<open>importJSON\<close>, after \<open>set\<close>. On an input with two arrays and \<open>nodeCounters\<close> \<open>null\<close>, with a
  \<open>localStorage\<close> that takes no more text, \<open>importJSON\<close> returns \<open>false\<close>; the store has
  been replaced all the same.
\<close>

theorem importJSON_full_storage_counterexample:
  "parseJSON noCounters
     = Some (JObject [(''nodes'', JArray []), (''edges'', JArray []), (''nodeCounters'', JNull)])
   \<and> importJSON parseJSON stringifyJSON (toJs twoPages) fullStorage noCounters
     = (False,
        \<lparr>js_nodes = JArray [], js_edges = JArray [],
         js_nodeCounters = JObject [(''sales'', JNumber (Whole 0)), (''order'', JNumber (Whole 0)),
           (''upsell'', JNumber (Whole 0)), (''downsell'', JNumber (Whole 0)),
           (''thankyou'', JNumber (Whole 0))]\<rparr>,
        fullStorage)"
  by (simp add: importJSON_def parse_noCounters saveToStorage_def setItem_def used_def
      fullStorage_def counters_json_def getInitialCounters_def STORAGE_KEY_def)

text \<open>
  C10, amended. When the input parses to an object whose \<open>nodes\<close> and \<open>edges\<close> are arrays
  and whose \<open>nodeCounters\<close> is missing or \<open>null\<close>, and the write of the new snapshot to
  \<open>localStorage\<close> does not throw, \<open>importJSON\<close> returns \<open>true\<close>, the nodes and edges of the
  store are the parsed arrays, every category counter is zero, and \<open>localStorage\<close> holds
  that snapshot.
\<close>

theorem importJSON_default_counters:
  assumes "JSON_parse input = Some (JObject kvs)"
    and "map_of kvs ''nodes'' = Some (JArray ns)"
    and "map_of kvs ''edges'' = Some (JArray es)"
    and "map_of kvs ''nodeCounters'' = None \<or> map_of kvs ''nodeCounters'' = Some JNull"
    and "setItem localStorage STORAGE_KEY (JSON_stringify 0 (JObject [(''nodes'', JArray ns),
         (''edges'', JArray es),
         (''nodeCounters'', JObject [(''sales'', JNumber (Whole 0)), (''order'', JNumber (Whole 0)),
           (''upsell'', JNumber (Whole 0)), (''downsell'', JNumber (Whole 0)),
           (''thankyou'', JNumber (Whole 0))])])) = Some localStorage'"
  shows "importJSON JSON_parse JSON_stringify st localStorage input =
     (True,
      \<lparr>js_nodes = JArray ns, js_edges = JArray es,
       js_nodeCounters = JObject [(''sales'', JNumber (Whole 0)), (''order'', JNumber (Whole 0)),
          (''upsell'', JNumber (Whole 0)), (''downsell'', JNumber (Whole 0)),
          (''thankyou'', JNumber (Whole 0))]\<rparr>,
      localStorage')"
  using assms
  by (auto simp: importJSON_def saveToStorage_def snapshot_json_def counters_json_def
      getInitialCounters_def)

theorem importJSON_default_counters_witness:
  "parseJSON noCounters
     = Some (JObject [(''nodes'', JArray []), (''edges'', JArray []), (''nodeCounters'', JNull)])
   \<and> setItem emptyStorage STORAGE_KEY (stringifyJSON 0 (snapshot_json (toJs initialStore)))
     = Some (emptyStorage\<lparr>items :=
         [(STORAGE_KEY, stringifyJSON 0 (snapshot_json (toJs initialStore)))]\<rparr>)
   \<and> importJSON parseJSON stringifyJSON (toJs twoPages) emptyStorage noCounters
     = (True,
        \<lparr>js_nodes = JArray [], js_edges = JArray [],
         js_nodeCounters = JObject [(''sales'', JNumber (Whole 0)), (''order'', JNumber (Whole 0)),
           (''upsell'', JNumber (Whole 0)), (''downsell'', JNumber (Whole 0)),
           (''thankyou'', JNumber (Whole 0))]\<rparr>,
        emptyStorage\<lparr>items :=
          [(STORAGE_KEY, stringifyJSON 0 (snapshot_json (toJs initialStore)))]\<rparr>)"
proof -
  have w: "setItem emptyStorage STORAGE_KEY (stringifyJSON 0 (snapshot_json (toJs initialStore)))
     = Some (emptyStorage\<lparr>items :=
         [(STORAGE_KEY, stringifyJSON 0 (snapshot_json (toJs initialStore)))]\<rparr>)"
    by (simp add: setItem_def used_def emptyStorage_def STORAGE_KEY_def zero_text_length)
  have z: "JObject [(''nodes'', JArray []), (''edges'', JArray []),
         (''nodeCounters'', JObject [(''sales'', JNumber (Whole 0)), (''order'', JNumber (Whole 0)),
           (''upsell'', JNumber (Whole 0)), (''downsell'', JNumber (Whole 0)),
           (''thankyou'', JNumber (Whole 0))])] = snapshot_json (toJs initialStore)"
    by (simp add: snapshot_json_def toJs_def initialStore_def counters_json_def
        getInitialCounters_def)
  from importJSON_default_counters [where JSON_parse = parseJSON and input = noCounters
      and kvs = "[(''nodes'', JArray []), (''edges'', JArray []), (''nodeCounters'', JNull)]"
      and ns = "[]" and es = "[]" and JSON_stringify = stringifyJSON
      and st = "toJs twoPages" and localStorage = emptyStorage
      and localStorage' = "emptyStorage\<lparr>items :=
         [(STORAGE_KEY, stringifyJSON 0 (snapshot_json (toJs initialStore)))]\<rparr>"]
    parse_noCounters w z
  show ?thesis by simp
qed


lemma toJs_shape:
  "isArray (Some (js_nodes (toJs S)))" "isArray (Some (js_edges (toJs S)))"
  "truthy (Some (js_nodeCounters (toJs S)))"
  by (simp_all add: toJs_def counters_json_def)

subsection \<open>Printing and reading back\<close>



















lemma blank_append [simp]: "blank (a @ b) = (blank a \<and> blank b)"
  by (auto simp: blank_def)



lemma joinWith_single [simp]: "joinWith sep [x] = x"
  by (simp add: joinWith_def)

lemma joinWith_Cons2 [simp]: "joinWith sep (x # y # ys) = x @ sep @ joinWith sep (y # ys)"
  by (simp add: joinWith_def)



lemma endsNumber_simps [simp]:
  "endsNumber (CHR '','' # cs)" "endsNumber (CHR '']'' # cs)" "endsNumber (CHR ''}'' # cs)"
  "endsNumber (CHR 0x0A # cs)" "endsNumber []"
  by (simp_all add: endsNumber_def)









subsection \<open>The snapshot of a store as a value\<close>


lemma distinctKeys_nullable [simp]: "distinctKeys (nullable x)"
  by (cases x) simp_all

lemma jsonify_nullable [simp]: "jsonify (nullable x) = nullable x"
  by (cases x) simp_all


























end
